theory Spec2Isabelle
  imports Complex_Main
begin

section \<open>Live Transfers Exchange: wallet ledger, campaign lifecycle and call billing\<close>

text \<open>
  A shallow embedding of \<^verbatim>\<open>src/main.py\<close> and \<^verbatim>\<open>src/schemas.py\<close>.
  Every request handler is a function from the request and the database to an outcome
  and the database after the request. The database is always returned, also when the
  handler raises, so that a write made before a raise stays visible.

  Amounts are Python floats in the source. They are modelled as exact rationals: the
  rounding error of a float addition is outside the model, the rounding of
  \<^verbatim>\<open>round(balance, 2)\<close> is inside it.
\<close>

subsection \<open>Errors\<close>

text \<open>
  \<^verbatim>\<open>HTTPException(status_code, detail)\<close> is what the handlers raise themselves.
  \<open>PydanticValidationError\<close> is what a schema constructor raises inside a handler when
  a field constraint fails (\<^verbatim>\<open>amount: float = Field(..., gt=0)\<close>).
\<close>

datatype error = HTTPException nat string | PydanticValidationError

subsection \<open>Object ids\<close>

text \<open>
  \<^verbatim>\<open>bson.ObjectId\<close> is a library type: a string of bytes, twelve of them when the
  store generated it. \<^verbatim>\<open>ObjectId(s)\<close> on a \<^verbatim>\<open>str\<close> requires
  \<^verbatim>\<open>len(s) == 24\<close> and \<^verbatim>\<open>bytes.fromhex(s)\<close> to succeed;
  \<^verbatim>\<open>str(oid)\<close> is the lower-case hexadecimal text of the bytes.
\<close>

type_synonym ObjectId = "nat list"

definition hexval :: "char \<Rightarrow> nat option" where
  "hexval c =
     (let n = (of_char c :: nat) in
      if 48 \<le> n \<and> n \<le> 57 then Some (n - 48)
      else if 97 \<le> n \<and> n \<le> 102 then Some (n - 87)
      else if 65 \<le> n \<and> n \<le> 70 then Some (n - 55)
      else None)"

definition is_space :: "char \<Rightarrow> bool" where
  "is_space c = ((of_char c :: nat) \<in> {32, 9, 10, 11, 12, 13})"

text \<open>\<^verbatim>\<open>bytes.fromhex\<close>: two hexadecimal digits per byte, white space between bytes skipped.\<close>

fun fromhex :: "string \<Rightarrow> nat list option" where
  "fromhex [] = Some []"
| "fromhex (c # cs) =
     (if is_space c then fromhex cs
      else (case cs of
              [] \<Rightarrow> None
            | d # ds \<Rightarrow>
                (case (hexval c, hexval d) of
                   (Some a, Some b) \<Rightarrow> map_option ((#) (16 * a + b)) (fromhex ds)
                 | _ \<Rightarrow> None)))"

definition ObjectId :: "string \<Rightarrow> ObjectId option" where
  "ObjectId s = (if length s = 24 then fromhex s else None)"

definition hexdigit :: "nat \<Rightarrow> char" where
  "hexdigit d = ''0123456789abcdef'' ! (d mod 16)"

definition str_of_oid :: "ObjectId \<Rightarrow> string" where
  "str_of_oid bs = concat (map (\<lambda>b. [hexdigit (b div 16), hexdigit b]) bs)"

text \<open>
  \<^verbatim>\<open>
  def oid(id_str: str) -> ObjectId:
      try:
          return ObjectId(id_str)
      except Exception:
          raise HTTPException(status_code=400, detail="Invalid id")
  \<close>
\<close>

definition oid :: "string \<Rightarrow> error + ObjectId" where
  "oid id_str =
     (case ObjectId id_str of
        Some i \<Rightarrow> Inr i
      | None \<Rightarrow> Inl (HTTPException 400 ''Invalid id''))"

subsection \<open>Schemas\<close>

datatype Role = Buyer | Seller | Admin

record User =
  user_name :: string
  user_email :: string
  user_role :: Role
  user_company :: "string option"
  user_phone :: "string option"
  user_is_active :: bool

datatype TxType = Credit | Debit

record WalletTransaction =
  wt_user_id :: string
  wt_type :: TxType
  wt_amount :: rat
  wt_memo :: "string option"
  wt_campaign_id :: "string option"
  wt_call_id :: "string option"

datatype Vertical =
  Mortgage | Medicare | ACAHealthInsurance | FinalExpenseInsurance
  | Debt | Solar | BusinessLoans | HomeServices

fun vertical_str :: "Vertical \<Rightarrow> string" where
  "vertical_str Mortgage = ''Mortgage''"
| "vertical_str Medicare = ''Medicare''"
| "vertical_str ACAHealthInsurance = ''ACA Health Insurance''"
| "vertical_str FinalExpenseInsurance = ''Final Expense Insurance''"
| "vertical_str Debt = ''Debt''"
| "vertical_str Solar = ''Solar''"
| "vertical_str BusinessLoans = ''Business Loans''"
| "vertical_str HomeServices = ''Home Services''"

datatype CampaignStatus =
  Draft | PendingAcceptance | AwaitingAdmin | Active | Paused | Depleted | Archived

record Campaign =
  camp_buyer_id :: string
  camp_vertical :: Vertical
  camp_price_per_call :: rat
  camp_daily_cap :: int
  camp_states :: "string list"
  camp_time_start :: string
  camp_time_end :: string
  camp_transfer_number :: "string option"
  camp_status :: CampaignStatus

datatype AcceptStatus = Accepted | Rejected

record SellerAcceptance =
  sa_campaign_id :: string
  sa_seller_id :: string
  sa_status :: AcceptStatus

record RoutingAssignment =
  ra_campaign_id :: string
  ra_seller_ids :: "string list"
  ra_did_number :: string

datatype Disposition = Completed | NoAnswer | Busy | Failed | Short

record CallRecord =
  cr_campaign_id :: string
  cr_buyer_id :: string
  cr_seller_id :: "string option"
  cr_did_number :: "string option"
  cr_caller :: "string option"
  cr_called :: "string option"
  cr_duration_seconds :: int
  cr_billable_threshold :: int
  cr_billable :: bool
  cr_recording_url :: "string option"
  cr_disposition :: Disposition

record Notification =
  nt_user_id :: string
  nt_message :: string
  nt_read :: bool

text \<open>
  \<^verbatim>\<open>WalletTransaction(user_id=..., type=..., amount=..., ...)\<close>: the constructor
  validates \<^verbatim>\<open>amount: float = Field(..., gt=0)\<close> and raises otherwise.
\<close>

definition WalletTransaction_init ::
  "string \<Rightarrow> TxType \<Rightarrow> rat \<Rightarrow> string option \<Rightarrow> string option \<Rightarrow> string option
   \<Rightarrow> error + WalletTransaction" where
  "WalletTransaction_init user_id ty amount memo campaign_id call_id =
     (if amount > 0
      then Inr \<lparr>wt_user_id = user_id, wt_type = ty, wt_amount = amount, wt_memo = memo,
                wt_campaign_id = campaign_id, wt_call_id = call_id\<rparr>
      else Inl PydanticValidationError)"

subsection \<open>The document store\<close>

text \<open>
  Modelled from the spec: the module \<^verbatim>\<open>database\<close> (\<^verbatim>\<open>db\<close>,
  \<^verbatim>\<open>create_document\<close>) is not among the sources. The spec gives its interface:
  \<^verbatim>\<open>insert(collection, doc) -> id\<close>, \<^verbatim>\<open>find_one(collection, filter) -> doc?\<close>,
  \<^verbatim>\<open>find(collection, filter) -> sequence of doc\<close>,
  \<^verbatim>\<open>update_one(collection, filter, patch)\<close>, with no relational integrity.
  A collection is the list of its documents in insertion order, each with its
  \<^verbatim>\<open>_id\<close>. A filter is a predicate on a document with its id. The first match is
  the one \<open>find_one\<close> returns and \<open>update_one\<close> patches. The id of an inserted
  document is generated from a counter of the store.
\<close>

type_synonym 'a collection = "(ObjectId \<times> 'a) list"

record database =
  user :: "User collection"
  wallettransaction :: "WalletTransaction collection"
  campaign :: "Campaign collection"
  selleracceptance :: "SellerAcceptance collection"
  routingassignment :: "RoutingAssignment collection"
  callrecord :: "CallRecord collection"
  notification :: "Notification collection"
  next_id :: nat

definition find_one :: "(ObjectId \<times> 'a \<Rightarrow> bool) \<Rightarrow> 'a collection \<Rightarrow> (ObjectId \<times> 'a) option" where
  "find_one flt docs = List.find flt docs"

definition find_docs :: "(ObjectId \<times> 'a \<Rightarrow> bool) \<Rightarrow> 'a collection \<Rightarrow> 'a collection" where
  "find_docs flt docs = filter flt docs"

fun update_one :: "(ObjectId \<times> 'a \<Rightarrow> bool) \<Rightarrow> ('a \<Rightarrow> 'a) \<Rightarrow> 'a collection \<Rightarrow> 'a collection" where
  "update_one flt patch [] = []"
| "update_one flt patch (d # docs) =
     (if flt d then (fst d, patch (snd d)) # docs else d # update_one flt patch docs)"

definition has_id :: "ObjectId \<Rightarrow> ObjectId \<times> 'a \<Rightarrow> bool" where
  "has_id i d = (fst d = i)"

text \<open>The twelve bytes of the counter, the most significant first.\<close>

definition gen_oid :: "nat \<Rightarrow> ObjectId" where
  "gen_oid n = map (\<lambda>k. n div 256 ^ k mod 256) [11, 10, 9, 8, 7, 6, 5, 4, 3, 2, 1, 0]"

text \<open>
  \<^verbatim>\<open>create_document(collection_name, data)\<close> inserts the document and returns
  \<^verbatim>\<open>str\<close> of its new id; one function for each collection the handlers write.
\<close>

definition create_document_wallettransaction ::
  "WalletTransaction \<Rightarrow> database \<Rightarrow> string \<times> database" where
  "create_document_wallettransaction d s =
     (let i = gen_oid (next_id s) in
      (str_of_oid i, s\<lparr>wallettransaction := wallettransaction s @ [(i, d)],
                       next_id := Suc (next_id s)\<rparr>))"

definition create_document_campaign :: "Campaign \<Rightarrow> database \<Rightarrow> string \<times> database" where
  "create_document_campaign d s =
     (let i = gen_oid (next_id s) in
      (str_of_oid i, s\<lparr>campaign := campaign s @ [(i, d)], next_id := Suc (next_id s)\<rparr>))"

definition create_document_selleracceptance ::
  "SellerAcceptance \<Rightarrow> database \<Rightarrow> string \<times> database" where
  "create_document_selleracceptance d s =
     (let i = gen_oid (next_id s) in
      (str_of_oid i, s\<lparr>selleracceptance := selleracceptance s @ [(i, d)],
                       next_id := Suc (next_id s)\<rparr>))"

definition create_document_routingassignment ::
  "RoutingAssignment \<Rightarrow> database \<Rightarrow> string \<times> database" where
  "create_document_routingassignment d s =
     (let i = gen_oid (next_id s) in
      (str_of_oid i, s\<lparr>routingassignment := routingassignment s @ [(i, d)],
                       next_id := Suc (next_id s)\<rparr>))"

definition create_document_callrecord :: "CallRecord \<Rightarrow> database \<Rightarrow> string \<times> database" where
  "create_document_callrecord d s =
     (let i = gen_oid (next_id s) in
      (str_of_oid i, s\<lparr>callrecord := callrecord s @ [(i, d)], next_id := Suc (next_id s)\<rparr>))"

definition create_document_notification ::
  "Notification \<Rightarrow> database \<Rightarrow> string \<times> database" where
  "create_document_notification d s =
     (let i = gen_oid (next_id s) in
      (str_of_oid i, s\<lparr>notification := notification s @ [(i, d)],
                       next_id := Suc (next_id s)\<rparr>))"

subsection \<open>The ledger\<close>

text \<open>
  Python's \<^verbatim>\<open>round(x, 2)\<close>: to the nearest multiple of 0.01, a tie to the even one.
\<close>

definition py_round2 :: "rat \<Rightarrow> rat" where
  "py_round2 x =
     (let y = x * 100; f = \<lfloor>y\<rfloor>; d = y - of_int f in
      of_int (if d < 1 / 2 then f
              else if 1 / 2 < d then f + 1
              else if even f then f else f + 1) / 100)"

text \<open>
  \<^verbatim>\<open>
  def get_balance(user_id: str) -> float:
      txs = db["wallettransaction"].find({"user_id": user_id})
      balance = 0.0
      for t in txs:
          if t.get("type") == "credit":
              balance += float(t.get("amount", 0))
          else:
              balance -= float(t.get("amount", 0))
      return round(balance, 2)
  \<close>
\<close>

fun balance_loop :: "WalletTransaction collection \<Rightarrow> rat \<Rightarrow> rat" where
  "balance_loop [] balance = balance"
| "balance_loop (t # txs) balance =
     balance_loop txs
       (if wt_type (snd t) = Credit then balance + wt_amount (snd t)
        else balance - wt_amount (snd t))"

definition get_balance :: "string \<Rightarrow> database \<Rightarrow> rat" where
  "get_balance user_id s =
     (let txs = find_docs (\<lambda>t. wt_user_id (snd t) = user_id) (wallettransaction s)
      in py_round2 (balance_loop txs 0))"

subsection \<open>Request bodies\<close>

record TopUp =
  tu_user_id :: string
  tu_amount :: rat

record AcceptPayload =
  ap_seller_id :: string
  ap_status :: AcceptStatus

record TransferNumberPayload =
  tn_transfer_number :: string

record CallLogPayload =
  cl_campaign_id :: string
  cl_seller_id :: "string option"
  cl_did_number :: "string option"
  cl_caller :: "string option"
  cl_called :: "string option"
  cl_duration_seconds :: int
  cl_recording_url :: "string option"
  cl_threshold :: int

subsection \<open>Wallet\<close>

text \<open>
  \<^verbatim>\<open>
  def wallet_topup(payload: TopUp):
      if payload.amount < 50:
          raise HTTPException(status_code=400, detail="Minimum top-up is $50")
      # Ensure user exists and is buyer
      user = db["user"].find_one({"_id": oid(payload.user_id)})
      if not user:
          raise HTTPException(status_code=404, detail="User not found")
      tx = WalletTransaction(user_id=payload.user_id, type="credit",
                             amount=payload.amount, memo="Account funding")
      tx_id = create_document("wallettransaction", tx)
      return {"id": tx_id, "balance": get_balance(payload.user_id)}
  \<close>
\<close>

definition wallet_topup :: "TopUp \<Rightarrow> database \<Rightarrow> (error + string \<times> rat) \<times> database" where
  "wallet_topup payload s =
     (if tu_amount payload < 50 then (Inl (HTTPException 400 ''Minimum top-up is $50''), s)
      else
        (case oid (tu_user_id payload) of
           Inl e \<Rightarrow> (Inl e, s)
         | Inr i \<Rightarrow>
             (case find_one (has_id i) (user s) of
                None \<Rightarrow> (Inl (HTTPException 404 ''User not found''), s)
              | Some u \<Rightarrow>
                  (case WalletTransaction_init (tu_user_id payload) Credit (tu_amount payload)
                          (Some ''Account funding'') None None of
                     Inl e \<Rightarrow> (Inl e, s)
                   | Inr tx \<Rightarrow>
                       (let (tx_id, s1) = create_document_wallettransaction tx s
                        in (Inr (tx_id, get_balance (tu_user_id payload) s1), s1))))))"

subsection \<open>Campaigns\<close>

text \<open>
  The loop of \<^verbatim>\<open>create_campaign\<close> over the sellers:
  \<^verbatim>\<open>
      for s in sellers:
          create_document("notification",
              Notification(user_id=str(s["_id"]),
                           message=f"New campaign available: {campaign.vertical}").model_dump())
  \<close>
\<close>

fun notify_sellers :: "User collection \<Rightarrow> string \<Rightarrow> database \<Rightarrow> database" where
  "notify_sellers [] msg s = s"
| "notify_sellers (u # sellers) msg s =
     notify_sellers sellers msg
       (snd (create_document_notification
               \<lparr>nt_user_id = str_of_oid (fst u), nt_message = msg, nt_read = False\<rparr> s))"

text \<open>
  \<^verbatim>\<open>
  def create_campaign(campaign: Campaign):
      buyer = db["user"].find_one({"_id": oid(campaign.buyer_id)})
      if not buyer or buyer.get("role") != "buyer":
          raise HTTPException(status_code=400, detail="Invalid buyer")
      if campaign.price_per_call < 35:
          raise HTTPException(status_code=400, detail="Minimum price per call is $35")
      camp_id = create_document("campaign", campaign)
      sellers = db["user"].find({"role": "seller"})
      for s in sellers: ...
      return {"id": camp_id}
  \<close>
\<close>

definition create_campaign :: "Campaign \<Rightarrow> database \<Rightarrow> (error + string) \<times> database" where
  "create_campaign c s =
     (case oid (camp_buyer_id c) of
        Inl e \<Rightarrow> (Inl e, s)
      | Inr i \<Rightarrow>
          (let buyer = find_one (has_id i) (user s) in
           if buyer = None \<or> user_role (snd (the buyer)) \<noteq> Buyer
           then (Inl (HTTPException 400 ''Invalid buyer''), s)
           else if camp_price_per_call c < 35
           then (Inl (HTTPException 400 ''Minimum price per call is $35''), s)
           else
             (let (camp_id, s1) = create_document_campaign c s;
                  sellers = find_docs (\<lambda>u. user_role (snd u) = Seller) (user s1);
                  s2 = notify_sellers sellers
                         (''New campaign available: '' @ vertical_str (camp_vertical c)) s1
              in (Inr camp_id, s2))))"

text \<open>
  \<^verbatim>\<open>
  def accept_campaign(campaign_id: str, payload: AcceptPayload):
      camp = db["campaign"].find_one({"_id": oid(campaign_id)})
      if not camp:
          raise HTTPException(status_code=404, detail="Campaign not found")
      seller = db["user"].find_one({"_id": oid(payload.seller_id)})
      if not seller or seller.get("role") != "seller":
          raise HTTPException(status_code=400, detail="Invalid seller")
      # Upsert acceptance
      existing = db["selleracceptance"].find_one(
          {"campaign_id": campaign_id, "seller_id": payload.seller_id})
      if existing:
          db["selleracceptance"].update_one({"_id": existing["_id"]},
                                            {"$set": {"status": payload.status}})
      else:
          create_document("selleracceptance",
              SellerAcceptance(campaign_id=campaign_id, seller_id=payload.seller_id,
                               status=payload.status))
      # Notify buyer
      create_document("notification",
          Notification(user_id=camp["buyer_id"],
                       message="A seller responded to your campaign.").model_dump())
      return {"ok": True}
  \<close>
\<close>

definition accept_campaign ::
  "string \<Rightarrow> AcceptPayload \<Rightarrow> database \<Rightarrow> (error + bool) \<times> database" where
  "accept_campaign campaign_id payload s =
     (case oid campaign_id of
        Inl e \<Rightarrow> (Inl e, s)
      | Inr i \<Rightarrow>
          (case find_one (has_id i) (campaign s) of
             None \<Rightarrow> (Inl (HTTPException 404 ''Campaign not found''), s)
           | Some camp \<Rightarrow>
               (case oid (ap_seller_id payload) of
                  Inl e \<Rightarrow> (Inl e, s)
                | Inr j \<Rightarrow>
                    (let seller = find_one (has_id j) (user s) in
                     if seller = None \<or> user_role (snd (the seller)) \<noteq> Seller
                     then (Inl (HTTPException 400 ''Invalid seller''), s)
                     else
                       (let existing =
                              find_one (\<lambda>a. sa_campaign_id (snd a) = campaign_id
                                             \<and> sa_seller_id (snd a) = ap_seller_id payload)
                                (selleracceptance s);
                            s1 = (case existing of
                                    Some a \<Rightarrow>
                                      s\<lparr>selleracceptance :=
                                          update_one (has_id (fst a))
                                            (\<lambda>d. d\<lparr>sa_status := ap_status payload\<rparr>)
                                            (selleracceptance s)\<rparr>
                                  | None \<Rightarrow>
                                      snd (create_document_selleracceptance
                                             \<lparr>sa_campaign_id = campaign_id,
                                              sa_seller_id = ap_seller_id payload,
                                              sa_status = ap_status payload\<rparr> s));
                            s2 = snd (create_document_notification
                                        \<lparr>nt_user_id = camp_buyer_id (snd camp),
                                         nt_message = ''A seller responded to your campaign.'',
                                         nt_read = False\<rparr> s1)
                        in (Inr True, s2))))))"

text \<open>
  \<^verbatim>\<open>
  def set_transfer_number(campaign_id: str, payload: TransferNumberPayload):
      camp = db["campaign"].find_one({"_id": oid(campaign_id)})
      if not camp:
          raise HTTPException(status_code=404, detail="Campaign not found")
      db["campaign"].update_one({"_id": camp["_id"]},
          {"$set": {"transfer_number": payload.transfer_number, "status": "awaiting_admin"}})
      create_document("notification",
          Notification(user_id="admin",
                       message=f"Campaign {campaign_id} ready for routing").model_dump())
      return {"ok": True}
  \<close>
\<close>

definition set_transfer_number ::
  "string \<Rightarrow> TransferNumberPayload \<Rightarrow> database \<Rightarrow> (error + bool) \<times> database" where
  "set_transfer_number campaign_id payload s =
     (case oid campaign_id of
        Inl e \<Rightarrow> (Inl e, s)
      | Inr i \<Rightarrow>
          (case find_one (has_id i) (campaign s) of
             None \<Rightarrow> (Inl (HTTPException 404 ''Campaign not found''), s)
           | Some camp \<Rightarrow>
               (let s1 = s\<lparr>campaign :=
                             update_one (has_id (fst camp))
                               (\<lambda>d. d\<lparr>camp_transfer_number := Some (tn_transfer_number payload),
                                       camp_status := AwaitingAdmin\<rparr>)
                               (campaign s)\<rparr>;
                    s2 = snd (create_document_notification
                                \<lparr>nt_user_id = ''admin'',
                                 nt_message = ''Campaign '' @ campaign_id @ '' ready for routing'',
                                 nt_read = False\<rparr> s1)
                in (Inr True, s2))))"

text \<open>
  The loop of \<^verbatim>\<open>assign_routing\<close> over the submitted seller ids:
  \<^verbatim>\<open>
      for sid in routing.seller_ids:
          create_document("notification",
              Notification(user_id=sid,
                           message="You have been assigned to a campaign.").model_dump())
  \<close>
\<close>

fun notify_assigned :: "string list \<Rightarrow> database \<Rightarrow> database" where
  "notify_assigned [] s = s"
| "notify_assigned (sid # seller_ids) s =
     notify_assigned seller_ids
       (snd (create_document_notification
               \<lparr>nt_user_id = sid, nt_message = ''You have been assigned to a campaign.'',
                nt_read = False\<rparr> s))"

text \<open>
  \<^verbatim>\<open>
  def assign_routing(campaign_id: str, routing: RoutingAssignment):
      camp = db["campaign"].find_one({"_id": oid(campaign_id)})
      if not camp:
          raise HTTPException(status_code=404, detail="Campaign not found")
      # Upsert routing
      existing = db["routingassignment"].find_one({"campaign_id": campaign_id})
      if existing:
          db["routingassignment"].update_one({"_id": existing["_id"]},
                                             {"$set": routing.model_dump()})
      else:
          create_document("routingassignment", routing)
      # Activate if buyer has >= $50, else set depleted
      buyer_id = camp["buyer_id"]
      bal = get_balance(buyer_id)
      new_status = "active" if bal >= 50 else "depleted"
      db["campaign"].update_one({"_id": camp["_id"]}, {"$set": {"status": new_status}})
      # Notify buyer & sellers
      create_document("notification", Notification(user_id=buyer_id,
          message="Your campaign routing is configured.").model_dump())
      for sid in routing.seller_ids: ...
      return {"ok": True, "status": new_status}
  \<close>
  The patch \<^verbatim>\<open>{"$set": routing.model_dump()}\<close> sets every field of the stored
  assignment from the request body, its \<^verbatim>\<open>campaign_id\<close> included.
\<close>

definition assign_routing ::
  "string \<Rightarrow> RoutingAssignment \<Rightarrow> database \<Rightarrow> (error + bool \<times> CampaignStatus) \<times> database" where
  "assign_routing campaign_id routing s =
     (case oid campaign_id of
        Inl e \<Rightarrow> (Inl e, s)
      | Inr i \<Rightarrow>
          (case find_one (has_id i) (campaign s) of
             None \<Rightarrow> (Inl (HTTPException 404 ''Campaign not found''), s)
           | Some camp \<Rightarrow>
               (let existing =
                      find_one (\<lambda>r. ra_campaign_id (snd r) = campaign_id) (routingassignment s);
                    s1 = (case existing of
                            Some r \<Rightarrow>
                              s\<lparr>routingassignment :=
                                  update_one (has_id (fst r)) (\<lambda>d. routing) (routingassignment s)\<rparr>
                          | None \<Rightarrow> snd (create_document_routingassignment routing s));
                    buyer_id = camp_buyer_id (snd camp);
                    bal = get_balance buyer_id s1;
                    new_status = (if bal \<ge> 50 then Active else Depleted);
                    s2 = s1\<lparr>campaign :=
                              update_one (has_id (fst camp)) (\<lambda>d. d\<lparr>camp_status := new_status\<rparr>)
                                (campaign s1)\<rparr>;
                    s3 = snd (create_document_notification
                                \<lparr>nt_user_id = buyer_id,
                                 nt_message = ''Your campaign routing is configured.'',
                                 nt_read = False\<rparr> s2);
                    s4 = notify_assigned (ra_seller_ids routing) s3
                in (Inr (True, new_status), s4))))"

subsection \<open>Calls and billing\<close>

text \<open>
  \<^verbatim>\<open>
  def log_call(payload: CallLogPayload):
      camp = db["campaign"].find_one({"_id": oid(payload.campaign_id)})
      if not camp:
          raise HTTPException(status_code=404, detail="Campaign not found")
      buyer_id = camp["buyer_id"]
      billable = payload.duration_seconds >= max(60, payload.threshold)
      disposition = "completed" if payload.duration_seconds > 0 else "failed"
      record = CallRecord(..., billable_threshold=payload.threshold, billable=billable,
          disposition="completed" if billable
                      else ("short" if payload.duration_seconds > 0 else "failed"))
      call_id = create_document("callrecord", record)
      # If billable, charge buyer
      if billable:
          price = float(camp.get("price_per_call", 0))
          tx = WalletTransaction(user_id=buyer_id, type="debit", amount=price,
                                 memo="Billable call", campaign_id=payload.campaign_id,
                                 call_id=call_id)
          create_document("wallettransaction", tx)
          # Pause/deplete if balance below 50
          bal = get_balance(buyer_id)
          if bal < 50:
              db["campaign"].update_one({"_id": camp["_id"]}, {"$set": {"status": "depleted"}})
              create_document("notification", Notification(user_id=buyer_id,
                  message="Balance low: campaign paused. Please add funds.").model_dump())
      return {"id": call_id, "billable": billable}
  \<close>
  The local \<^verbatim>\<open>disposition\<close> of the source is assigned and never read; the stored
  disposition is the expression passed to \<^verbatim>\<open>CallRecord\<close>.
\<close>

definition log_call :: "CallLogPayload \<Rightarrow> database \<Rightarrow> (error + string \<times> bool) \<times> database" where
  "log_call payload s =
     (case oid (cl_campaign_id payload) of
        Inl e \<Rightarrow> (Inl e, s)
      | Inr i \<Rightarrow>
          (case find_one (has_id i) (campaign s) of
             None \<Rightarrow> (Inl (HTTPException 404 ''Campaign not found''), s)
           | Some camp \<Rightarrow>
               (let buyer_id = camp_buyer_id (snd camp);
                    billable = (cl_duration_seconds payload \<ge> max 60 (cl_threshold payload));
                    call_record =
                      \<lparr>cr_campaign_id = cl_campaign_id payload,
                       cr_buyer_id = buyer_id,
                       cr_seller_id = cl_seller_id payload,
                       cr_did_number = cl_did_number payload,
                       cr_caller = cl_caller payload,
                       cr_called = cl_called payload,
                       cr_duration_seconds = cl_duration_seconds payload,
                       cr_billable_threshold = cl_threshold payload,
                       cr_billable = billable,
                       cr_recording_url = cl_recording_url payload,
                       cr_disposition =
                         (if billable then Completed
                          else if cl_duration_seconds payload > 0 then Short else Failed)\<rparr>;
                    (call_id, s1) = create_document_callrecord call_record s
                in if billable then
                     (let price = camp_price_per_call (snd camp) in
                      case WalletTransaction_init buyer_id Debit price (Some ''Billable call'')
                             (Some (cl_campaign_id payload)) (Some call_id) of
                        Inl e \<Rightarrow> (Inl e, s1)
                      | Inr tx \<Rightarrow>
                          (let s2 = snd (create_document_wallettransaction tx s1);
                               bal = get_balance buyer_id s2
                           in if bal < 50 then
                                (let s3 = s2\<lparr>campaign :=
                                               update_one (has_id (fst camp))
                                                 (\<lambda>d. d\<lparr>camp_status := Depleted\<rparr>)
                                                 (campaign s2)\<rparr>;
                                     s4 = snd (create_document_notification
                                                 \<lparr>nt_user_id = buyer_id,
                                                  nt_message =
                                                    ''Balance low: campaign paused. Please add funds.'',
                                                  nt_read = False\<rparr> s3)
                                 in (Inr (call_id, billable), s4))
                              else (Inr (call_id, billable), s2)))
                   else (Inr (call_id, billable), s1))))"

subsection \<open>The ledger as the spec words it\<close>

text \<open>
  The spec's balance: the sum of the user's credit amounts minus the sum of the user's
  debit amounts. These two sums follow the spec's words, not the loop of the source.
\<close>

definition sum_credits :: "string \<Rightarrow> database \<Rightarrow> rat" where
  "sum_credits user_id s =
     (\<Sum>t\<leftarrow>filter (\<lambda>t. wt_user_id (snd t) = user_id \<and> wt_type (snd t) = Credit)
            (wallettransaction s). wt_amount (snd t))"



subsection \<open>Whole cents\<close>



subsection \<open>Invariants of the store\<close>

text \<open>
  The campaign schema and \<open>create_campaign\<close> admit a campaign only with a price of
  at least 35, and no handler changes the price of a stored campaign. The keys of the two
  upserted collections are listed in insertion order.
\<close>

definition price_floor :: "database \<Rightarrow> bool" where
  "price_floor s = list_all (\<lambda>c. 35 \<le> camp_price_per_call (snd c)) (campaign s)"

definition acceptance_keys :: "database \<Rightarrow> (string \<times> string) list" where
  "acceptance_keys s = map (\<lambda>a. (sa_campaign_id (snd a), sa_seller_id (snd a))) (selleracceptance s)"

definition routing_keys :: "database \<Rightarrow> string list" where
  "routing_keys s = map (\<lambda>r. ra_campaign_id (snd r)) (routingassignment s)"

subsection \<open>The database between the writes of a handler\<close>

text \<open>
  Names for what the handlers build and for the database after each of their writes, in
  the order of the source: the call record, the debit, the depletion with its notice;
  the routing upsert and the notice to an assigned seller; the credit of a top-up.
\<close>

definition record_of_call :: "CallLogPayload \<Rightarrow> Campaign \<Rightarrow> CallRecord" where
  "record_of_call payload camp =
     \<lparr>cr_campaign_id = cl_campaign_id payload,
      cr_buyer_id = camp_buyer_id camp,
      cr_seller_id = cl_seller_id payload,
      cr_did_number = cl_did_number payload,
      cr_caller = cl_caller payload,
      cr_called = cl_called payload,
      cr_duration_seconds = cl_duration_seconds payload,
      cr_billable_threshold = cl_threshold payload,
      cr_billable = (max 60 (cl_threshold payload) \<le> cl_duration_seconds payload),
      cr_recording_url = cl_recording_url payload,
      cr_disposition =
        (if max 60 (cl_threshold payload) \<le> cl_duration_seconds payload then Completed
         else if 0 < cl_duration_seconds payload then Short else Failed)\<rparr>"

definition debit_of_call :: "CallLogPayload \<Rightarrow> Campaign \<Rightarrow> string \<Rightarrow> WalletTransaction" where
  "debit_of_call payload camp call_id =
     \<lparr>wt_user_id = camp_buyer_id camp, wt_type = Debit, wt_amount = camp_price_per_call camp,
      wt_memo = Some ''Billable call'', wt_campaign_id = Some (cl_campaign_id payload),
      wt_call_id = Some call_id\<rparr>"

definition after_record :: "CallLogPayload \<Rightarrow> Campaign \<Rightarrow> database \<Rightarrow> database" where
  "after_record payload camp s = snd (create_document_callrecord (record_of_call payload camp) s)"

definition after_debit :: "CallLogPayload \<Rightarrow> Campaign \<Rightarrow> database \<Rightarrow> database" where
  "after_debit payload camp s =
     snd (create_document_wallettransaction
            (debit_of_call payload camp (str_of_oid (gen_oid (next_id s))))
            (after_record payload camp s))"

definition after_depletion :: "ObjectId \<Rightarrow> CallLogPayload \<Rightarrow> Campaign \<Rightarrow> database \<Rightarrow> database" where
  "after_depletion i payload camp s =
     snd (create_document_notification
            \<lparr>nt_user_id = camp_buyer_id camp,
             nt_message = ''Balance low: campaign paused. Please add funds.'',
             nt_read = False\<rparr>
            ((after_debit payload camp s)
               \<lparr>campaign := update_one (has_id i) (\<lambda>d. d\<lparr>camp_status := Depleted\<rparr>)
                              (campaign (after_debit payload camp s))\<rparr>))"

definition assigned_note :: "string \<Rightarrow> Notification" where
  "assigned_note sid =
     \<lparr>nt_user_id = sid, nt_message = ''You have been assigned to a campaign.'',
      nt_read = False\<rparr>"

definition after_upsert :: "string \<Rightarrow> RoutingAssignment \<Rightarrow> database \<Rightarrow> database" where
  "after_upsert campaign_id routing s =
     (case find_one (\<lambda>r. ra_campaign_id (snd r) = campaign_id) (routingassignment s) of
        Some r \<Rightarrow>
          s\<lparr>routingassignment :=
              update_one (has_id (fst r)) (\<lambda>d. routing) (routingassignment s)\<rparr>
      | None \<Rightarrow> snd (create_document_routingassignment routing s))"

definition topup_credit :: "TopUp \<Rightarrow> WalletTransaction" where
  "topup_credit payload =
     \<lparr>wt_user_id = tu_user_id payload, wt_type = Credit, wt_amount = tu_amount payload,
      wt_memo = Some ''Account funding'', wt_campaign_id = None, wt_call_id = None\<rparr>"

subsection \<open>A sample store\<close>

text \<open>
  Three users (a buyer, a seller, an admin), one campaign of the buyer awaiting acceptance
  with a price of 40, and one credit of 60 in the buyer's ledger.
\<close>

definition demo_buyer_id :: string where "demo_buyer_id = ''000000000000000000000011''"

definition demo_seller_id :: string where "demo_seller_id = ''000000000000000000000012''"

definition demo_admin_id :: string where "demo_admin_id = ''000000000000000000000013''"

definition demo_campaign_id :: string where "demo_campaign_id = ''000000000000000000000014''"

definition demo_other_id :: string where "demo_other_id = ''000000000000000000000019''"

definition demo_user :: "string \<Rightarrow> Role \<Rightarrow> User" where
  "demo_user n r = \<lparr>user_name = n, user_email = n @ ''@example.com'', user_role = r,
     user_company = None, user_phone = None, user_is_active = True\<rparr>"

definition demo_campaign :: Campaign where
  "demo_campaign =
     \<lparr>camp_buyer_id = demo_buyer_id, camp_vertical = Solar, camp_price_per_call = 40,
      camp_daily_cap = 10, camp_states = [''CA''], camp_time_start = ''09:00'',
      camp_time_end = ''17:00'', camp_transfer_number = None,
      camp_status = PendingAcceptance\<rparr>"

definition demo_db :: database where
  "demo_db =
     \<lparr>user = [(gen_oid 17, demo_user ''bea'' Buyer), (gen_oid 18, demo_user ''sol'' Seller),
              (gen_oid 19, demo_user ''ada'' Admin)],
      wallettransaction =
        [(gen_oid 21, \<lparr>wt_user_id = demo_buyer_id, wt_type = Credit, wt_amount = 60,
                      wt_memo = Some ''Account funding'', wt_campaign_id = None,
                      wt_call_id = None\<rparr>)],
      campaign = [(gen_oid 20, demo_campaign)],
      selleracceptance = [], routingassignment = [], callrecord = [], notification = [],
      next_id = 22\<rparr>"

definition demo_call :: "int \<Rightarrow> int \<Rightarrow> CallLogPayload" where
  "demo_call duration threshold =
     \<lparr>cl_campaign_id = demo_campaign_id, cl_seller_id = Some demo_seller_id,
      cl_did_number = None, cl_caller = None, cl_called = None,
      cl_duration_seconds = duration, cl_recording_url = None, cl_threshold = threshold\<rparr>"

definition demo_routing :: "string \<Rightarrow> RoutingAssignment" where
  "demo_routing cid =
     \<lparr>ra_campaign_id = cid, ra_seller_ids = [demo_seller_id, demo_other_id],
      ra_did_number = ''+15550100''\<rparr>"

definition demo_topup :: "string \<Rightarrow> rat \<Rightarrow> TopUp" where
  "demo_topup uid amount = \<lparr>tu_user_id = uid, tu_amount = amount\<rparr>"

definition demo_twice :: database where
  "demo_twice =
     snd (assign_routing demo_campaign_id (demo_routing demo_other_id)
            (snd (assign_routing demo_campaign_id (demo_routing demo_other_id) demo_db)))"

section \<open>Properties\<close>

subsection \<open>The balance is a fold over the ledger\<close>






subsection \<open>Facts about the store\<close>

lemma find_one_SomeD:
  "find_one flt docs = Some d \<Longrightarrow> d \<in> set docs \<and> flt d"
  by (auto simp: find_one_def find_Some_iff)

lemma find_one_has_id: "find_one (has_id i) docs = Some d \<Longrightarrow> fst d = i"
  by (auto dest: find_one_SomeD simp: has_id_def)

lemma find_one_update_one:
  "find_one (has_id i) docs = Some d \<Longrightarrow>
   find_one (has_id i) (update_one (has_id i) patch docs) = Some (i, patch (snd d))"
  by (induction docs) (auto simp: find_one_def has_id_def split: if_splits)

lemma find_one_None_key:
  "find_one (\<lambda>a. key (snd a) = k) docs = None \<Longrightarrow> k \<notin> set (map (\<lambda>a. key (snd a)) docs)"
  by (force simp: find_one_def find_None_iff)

lemma update_one_keeps:
  "(\<And>d. key (patch d) = key d) \<Longrightarrow>
   map (\<lambda>a. key (snd a)) (update_one flt patch docs) = map (\<lambda>a. key (snd a)) docs"
  by (induction docs) simp_all

lemma list_all_update_one:
  "list_all P docs \<Longrightarrow> (\<And>d. P d \<Longrightarrow> P (fst d, patch (snd d))) \<Longrightarrow>
   list_all P (update_one flt patch docs)"
  by (induction docs) auto

lemma get_balance_ledger:
  "wallettransaction s' = wallettransaction s \<Longrightarrow> get_balance user_id s' = get_balance user_id s"
  by (simp add: get_balance_def)

lemma price_floor_found:
  "price_floor s \<Longrightarrow> find_one flt (campaign s) = Some camp \<Longrightarrow> 35 \<le> camp_price_per_call (snd camp)"
  by (auto dest!: find_one_SomeD simp: price_floor_def list_all_iff)

lemma notify_sellers_fields:
  "campaign (notify_sellers sellers msg s) = campaign s"
  "wallettransaction (notify_sellers sellers msg s) = wallettransaction s"
  "selleracceptance (notify_sellers sellers msg s) = selleracceptance s"
  "routingassignment (notify_sellers sellers msg s) = routingassignment s"
  by (induction sellers arbitrary: s; simp add: create_document_notification_def Let_def)+

lemma notify_assigned_fields:
  "map snd (notification (notify_assigned sids s)) =
     map snd (notification s) @ map assigned_note sids"
  "user (notify_assigned sids s) = user s"
  "wallettransaction (notify_assigned sids s) = wallettransaction s"
  "campaign (notify_assigned sids s) = campaign s"
  "selleracceptance (notify_assigned sids s) = selleracceptance s"
  "routingassignment (notify_assigned sids s) = routingassignment s"
  "callrecord (notify_assigned sids s) = callrecord s"
  by (induction sids arbitrary: s;
      simp add: create_document_notification_def Let_def assigned_note_def)+

subsection \<open>Facts about the sample store\<close>

lemma demo_oids:
  "oid demo_buyer_id = Inr (gen_oid 17)" "oid demo_seller_id = Inr (gen_oid 18)"
  "oid demo_admin_id = Inr (gen_oid 19)" "oid demo_campaign_id = Inr (gen_oid 20)"
  by (simp_all add: gen_oid_def demo_buyer_id_def demo_seller_id_def demo_admin_id_def
      demo_campaign_id_def oid_def ObjectId_def is_space_def hexval_def)

lemma demo_other_oid: "oid demo_other_id = Inr (gen_oid 25)"
  by (simp add: demo_other_id_def oid_def ObjectId_def is_space_def hexval_def gen_oid_def)

lemma demo_find_campaign:
  "find_one (has_id (gen_oid 20)) (campaign demo_db) = Some (gen_oid 20, demo_campaign)"
  by (simp add: demo_db_def find_one_def has_id_def)

lemma demo_no_campaign: "find_one (has_id (gen_oid 25)) (campaign demo_db) = None"
  by (simp add: demo_db_def find_one_def has_id_def gen_oid_def)

lemma demo_find_user:
  "find_one (has_id (gen_oid 17)) (user demo_db) = Some (gen_oid 17, demo_user ''bea'' Buyer)"
  "find_one (has_id (gen_oid 18)) (user demo_db) = Some (gen_oid 18, demo_user ''sol'' Seller)"
  "find_one (has_id (gen_oid 19)) (user demo_db) = Some (gen_oid 19, demo_user ''ada'' Admin)"
  by (simp_all add: demo_db_def find_one_def has_id_def gen_oid_def)

lemma demo_fields:
  "notification demo_db = []" "callrecord demo_db = []" "routingassignment demo_db = []"
  "selleracceptance demo_db = []" "next_id demo_db = 22"
  "campaign demo_db = [(gen_oid 20, demo_campaign)]"
  by (simp_all add: demo_db_def)

lemma demo_price_floor: "price_floor demo_db"
  by (simp add: price_floor_def demo_db_def demo_campaign_def)

lemma demo_balance: "get_balance demo_buyer_id demo_db = 60"
  by (simp add: get_balance_def demo_db_def find_docs_def py_round2_def Let_def)

lemma demo_call_id: "oid (cl_campaign_id (demo_call d t)) = Inr (gen_oid 20)"
  by (simp add: demo_call_def demo_oids)

subsection \<open>Every handler keeps the price floor\<close>

text \<open>
  The hypothesis \<open>price_floor\<close> of the billing theorems holds of a store without campaigns and
  is kept by every handler, so it excludes no store the handlers can produce.
\<close>

lemma wallet_topup_price_floor:
  "price_floor s \<Longrightarrow> price_floor (snd (wallet_topup payload s))"
  by (auto simp: wallet_topup_def WalletTransaction_init_def create_document_wallettransaction_def
      Let_def price_floor_def split: sum.splits option.splits)

lemma create_campaign_price_floor:
  "price_floor s \<Longrightarrow> price_floor (snd (create_campaign c s))"
  by (auto simp: create_campaign_def create_document_campaign_def Let_def price_floor_def
      notify_sellers_fields split: sum.splits option.splits)

lemma accept_campaign_price_floor:
  "price_floor s \<Longrightarrow> price_floor (snd (accept_campaign cid payload s))"
  by (auto simp: accept_campaign_def create_document_selleracceptance_def
      create_document_notification_def Let_def price_floor_def split: sum.splits option.splits)

lemma set_transfer_number_price_floor:
  "price_floor s \<Longrightarrow> price_floor (snd (set_transfer_number cid payload s))"
  by (auto simp: set_transfer_number_def create_document_notification_def Let_def price_floor_def
      intro!: list_all_update_one split: sum.splits option.splits)

lemma assign_routing_price_floor:
  "price_floor s \<Longrightarrow> price_floor (snd (assign_routing cid routing s))"
  by (auto simp: assign_routing_def create_document_notification_def
      create_document_routingassignment_def notify_assigned_fields Let_def price_floor_def
      intro!: list_all_update_one split: sum.splits option.splits)

lemma log_call_price_floor:
  "price_floor s \<Longrightarrow> price_floor (snd (log_call payload s))"
  by (auto simp: log_call_def create_document_notification_def create_document_callrecord_def
      create_document_wallettransaction_def WalletTransaction_init_def Let_def price_floor_def
      intro!: list_all_update_one split: sum.splits option.splits)

subsection \<open>Call billing\<close>

text \<open>
  \<open>log_call\<close> on an existing campaign, by the branch it takes.
\<close>

lemma log_call_found:
  assumes "oid (cl_campaign_id payload) = Inr i"
    and "find_one (has_id i) (campaign s) = Some camp"
  shows "log_call payload s =
     (if max 60 (cl_threshold payload) \<le> cl_duration_seconds payload then
        if 0 < camp_price_per_call (snd camp) then
          (Inr (str_of_oid (gen_oid (next_id s)), True),
           if get_balance (camp_buyer_id (snd camp)) (after_debit payload (snd camp) s) < 50
           then after_depletion i payload (snd camp) s
           else after_debit payload (snd camp) s)
        else (Inl PydanticValidationError, after_record payload (snd camp) s)
      else (Inr (str_of_oid (gen_oid (next_id s)), False), after_record payload (snd camp) s))"
proof -
  have i: "fst camp = i"
    using assms(2) by (rule find_one_has_id)
  have rec: "create_document_callrecord (record_of_call payload (snd camp)) s =
      (str_of_oid (gen_oid (next_id s)), after_record payload (snd camp) s)"
    by (simp add: after_record_def create_document_callrecord_def Let_def)
  show ?thesis
  proof (cases "max 60 (cl_threshold payload) \<le> cl_duration_seconds payload")
    case False
    then show ?thesis
      using assms rec
      by (simp add: log_call_def record_of_call_def Let_def del: max_less_iff_conj max.bounded_iff)
  next
    case True
    show ?thesis
    proof (cases "0 < camp_price_per_call (snd camp)")
      case False
      with True show ?thesis
        using assms rec
        by (simp add: log_call_def record_of_call_def Let_def WalletTransaction_init_def
            del: max.bounded_iff)
    next
      case pos: True
      with True show ?thesis
        using assms rec i
        by (simp add: log_call_def record_of_call_def Let_def WalletTransaction_init_def
            after_debit_def after_depletion_def debit_of_call_def
            del: max.bounded_iff)
    qed
  qed
qed

lemma after_record_fields:
  "callrecord (after_record payload c s) = callrecord s @ [(gen_oid (next_id s), record_of_call payload c)]"
  "wallettransaction (after_record payload c s) = wallettransaction s"
  "campaign (after_record payload c s) = campaign s"
  "notification (after_record payload c s) = notification s"
  "user (after_record payload c s) = user s"
  "selleracceptance (after_record payload c s) = selleracceptance s"
  "routingassignment (after_record payload c s) = routingassignment s"
  "next_id (after_record payload c s) = Suc (next_id s)"
  by (simp_all add: after_record_def create_document_callrecord_def Let_def)

lemma after_debit_fields:
  "callrecord (after_debit payload c s) = callrecord s @ [(gen_oid (next_id s), record_of_call payload c)]"
  "wallettransaction (after_debit payload c s) =
     wallettransaction s @
       [(gen_oid (Suc (next_id s)), debit_of_call payload c (str_of_oid (gen_oid (next_id s))))]"
  "campaign (after_debit payload c s) = campaign s"
  "notification (after_debit payload c s) = notification s"
  "user (after_debit payload c s) = user s"
  "selleracceptance (after_debit payload c s) = selleracceptance s"
  "routingassignment (after_debit payload c s) = routingassignment s"
  "next_id (after_debit payload c s) = Suc (Suc (next_id s))"
  by (simp_all add: after_debit_def create_document_wallettransaction_def Let_def after_record_fields)

lemma after_depletion_fields:
  "callrecord (after_depletion i payload c s) = callrecord (after_debit payload c s)"
  "wallettransaction (after_depletion i payload c s) = wallettransaction (after_debit payload c s)"
  "campaign (after_depletion i payload c s) =
     update_one (has_id i) (\<lambda>d. d\<lparr>camp_status := Depleted\<rparr>) (campaign s)"
  "notification (after_depletion i payload c s) =
     notification s @
       [(gen_oid (Suc (Suc (next_id s))),
         \<lparr>nt_user_id = camp_buyer_id c,
          nt_message = ''Balance low: campaign paused. Please add funds.'',
          nt_read = False\<rparr>)]"
  "user (after_depletion i payload c s) = user s"
  "selleracceptance (after_depletion i payload c s) = selleracceptance s"
  "routingassignment (after_depletion i payload c s) = routingassignment s"
  by (simp_all add: after_depletion_def create_document_notification_def Let_def after_debit_fields)

lemma log_call_callrecord:
  assumes "oid (cl_campaign_id payload) = Inr i"
    and "find_one (has_id i) (campaign s) = Some camp"
  shows "callrecord (snd (log_call payload s)) =
      callrecord s @ [(gen_oid (next_id s), record_of_call payload (snd camp))]"
  unfolding log_call_found [OF assms]
  by (simp add: after_record_fields after_debit_fields after_depletion_fields)

lemma log_call_balance:
  assumes "oid (cl_campaign_id payload) = Inr i"
    and "find_one (has_id i) (campaign s) = Some camp"
    and "max 60 (cl_threshold payload) \<le> cl_duration_seconds payload"
    and "0 < camp_price_per_call (snd camp)"
  shows "get_balance u (snd (log_call payload s)) = get_balance u (after_debit payload (snd camp) s)"
proof -
  have "wallettransaction (snd (log_call payload s)) =
      wallettransaction (after_debit payload (snd camp) s)"
    using assms(3,4) unfolding log_call_found [OF assms(1,2)]
    by (simp add: after_depletion_fields del: max.bounded_iff)
  then show ?thesis by (rule get_balance_ledger)
qed

lemma log_call_low:
  assumes "oid (cl_campaign_id payload) = Inr i"
    and "find_one (has_id i) (campaign s) = Some camp"
    and "max 60 (cl_threshold payload) \<le> cl_duration_seconds payload"
    and "0 < camp_price_per_call (snd camp)"
    and "get_balance (camp_buyer_id (snd camp)) (snd (log_call payload s)) < 50"
  shows "log_call payload s =
        (Inr (str_of_oid (gen_oid (next_id s)), True), after_depletion i payload (snd camp) s)"
  using assms(3,4,5) unfolding log_call_balance [OF assms(1-4)]
  unfolding log_call_found [OF assms(1,2)] by (simp del: max.bounded_iff)

lemma log_call_high:
  assumes "oid (cl_campaign_id payload) = Inr i"
    and "find_one (has_id i) (campaign s) = Some camp"
    and "max 60 (cl_threshold payload) \<le> cl_duration_seconds payload"
    and "0 < camp_price_per_call (snd camp)"
    and "\<not> get_balance (camp_buyer_id (snd camp)) (snd (log_call payload s)) < 50"
  shows "log_call payload s =
        (Inr (str_of_oid (gen_oid (next_id s)), True), after_debit payload (snd camp) s)"
  using assms(3,4,5) unfolding log_call_balance [OF assms(1-4)]
  unfolding log_call_found [OF assms(1,2)] by (simp del: max.bounded_iff)

lemma log_call_short:
  assumes "oid (cl_campaign_id payload) = Inr i"
    and "find_one (has_id i) (campaign s) = Some camp"
    and "\<not> max 60 (cl_threshold payload) \<le> cl_duration_seconds payload"
  shows "log_call payload s =
        (Inr (str_of_oid (gen_oid (next_id s)), False), after_record payload (snd camp) s)"
  using assms(3) unfolding log_call_found [OF assms(1,2)] by (simp del: max.bounded_iff)

lemma demo_log_call_balance:
  "get_balance demo_buyer_id (snd (log_call (demo_call 120 90) demo_db)) = 20"
proof -
  have pos: "0 < camp_price_per_call (snd (gen_oid 20, demo_campaign))"
    by (simp add: demo_campaign_def)
  have b: "max 60 (cl_threshold (demo_call 120 90)) \<le> cl_duration_seconds (demo_call 120 90)"
    by (simp add: demo_call_def)
  show ?thesis
    unfolding log_call_balance [OF demo_call_id demo_find_campaign b pos]
    by (simp add: get_balance_def after_debit_fields debit_of_call_def find_docs_def
        demo_db_def demo_campaign_def py_round2_def Let_def)
qed

text \<open>
  C2. For every \<open>log_call\<close> on an existing campaign in a store that keeps the price
  floor: when the call is billable, the call record gets the new id, exactly one debit is
  appended to the ledger, for the campaign's buyer and the price the campaign record holds
  at that moment, tagged with the campaign id and the new call id; the buyer's balance is
  then read from the ledger and, when it is below 50, the campaign's status is set to
  depleted and exactly one notification is appended, for the buyer; otherwise campaigns and
  notifications stay as they were. When the call is not billable, the ledger, the
  campaigns and the notifications stay as they were.
\<close>

theorem log_call_billable_debit:
  assumes "price_floor s"
    and "oid (cl_campaign_id payload) = Inr i"
    and "find_one (has_id i) (campaign s) = Some camp"
  shows
   "(max 60 (cl_threshold payload) \<le> cl_duration_seconds payload \<longrightarrow>
       fst (log_call payload s) = Inr (str_of_oid (gen_oid (next_id s)), True)
     \<and> map fst (callrecord (snd (log_call payload s))) =
         map fst (callrecord s) @ [gen_oid (next_id s)]
     \<and> map snd (wallettransaction (snd (log_call payload s))) =
         map snd (wallettransaction s) @
           [\<lparr>wt_user_id = camp_buyer_id (snd camp), wt_type = Debit,
             wt_amount = camp_price_per_call (snd camp), wt_memo = Some ''Billable call'',
             wt_campaign_id = Some (cl_campaign_id payload),
             wt_call_id = Some (str_of_oid (gen_oid (next_id s)))\<rparr>]
     \<and> (if get_balance (camp_buyer_id (snd camp)) (snd (log_call payload s)) < 50
        then campaign (snd (log_call payload s)) =
               update_one (has_id i) (\<lambda>d. d\<lparr>camp_status := Depleted\<rparr>) (campaign s)
           \<and> find_one (has_id i) (campaign (snd (log_call payload s))) =
               Some (i, (snd camp)\<lparr>camp_status := Depleted\<rparr>)
           \<and> map snd (notification (snd (log_call payload s))) =
               map snd (notification s) @
                 [\<lparr>nt_user_id = camp_buyer_id (snd camp),
                   nt_message = ''Balance low: campaign paused. Please add funds.'',
                   nt_read = False\<rparr>]
        else campaign (snd (log_call payload s)) = campaign s
           \<and> notification (snd (log_call payload s)) = notification s))
   \<and> (\<not> max 60 (cl_threshold payload) \<le> cl_duration_seconds payload \<longrightarrow>
         wallettransaction (snd (log_call payload s)) = wallettransaction s
       \<and> campaign (snd (log_call payload s)) = campaign s
       \<and> notification (snd (log_call payload s)) = notification s)"
proof (cases "max 60 (cl_threshold payload) \<le> cl_duration_seconds payload")
  case False
  then show ?thesis
    unfolding log_call_found [OF assms(2,3)]
    by (simp add: after_record_fields del: max.bounded_iff)
next
  case True
  have pos: "0 < camp_price_per_call (snd camp)"
    using price_floor_found [OF assms(1,3)] by simp
  note bal = log_call_balance [OF assms(2,3) True pos]
  note upd = find_one_update_one [OF assms(3)]
  show ?thesis
  proof (cases "get_balance (camp_buyer_id (snd camp)) (after_debit payload (snd camp) s) < 50")
    case low: True
    have eq: "log_call payload s =
        (Inr (str_of_oid (gen_oid (next_id s)), True), after_depletion i payload (snd camp) s)"
      using True pos low unfolding log_call_found [OF assms(2,3)] by (simp del: max.bounded_iff)
    show ?thesis
      using True low upd unfolding bal unfolding eq
      by (simp add: after_depletion_fields after_debit_fields debit_of_call_def
          del: max.bounded_iff)
  next
    case high: False
    have eq: "log_call payload s =
        (Inr (str_of_oid (gen_oid (next_id s)), True), after_debit payload (snd camp) s)"
      using True pos high unfolding log_call_found [OF assms(2,3)] by (simp del: max.bounded_iff)
    show ?thesis
      using True high unfolding bal unfolding eq
      by (simp add: after_debit_fields debit_of_call_def del: max.bounded_iff)
  qed
qed

text \<open>
  A billable call of 120 seconds on the sample store: the buyer's 60 become 20, the
  campaign is depleted and the buyer is notified once.
\<close>

theorem log_call_billable_debit_witness:
  "price_floor demo_db
   \<and> oid (cl_campaign_id (demo_call 120 90)) = Inr (gen_oid 20)
   \<and> find_one (has_id (gen_oid 20)) (campaign demo_db) = Some (gen_oid 20, demo_campaign)
   \<and> fst (log_call (demo_call 120 90) demo_db) = Inr (''000000000000000000000016'', True)
   \<and> map (\<lambda>t. (wt_user_id (snd t), wt_type (snd t), wt_amount (snd t), wt_call_id (snd t)))
        (wallettransaction (snd (log_call (demo_call 120 90) demo_db))) =
       [(demo_buyer_id, Credit, 60, None),
        (demo_buyer_id, Debit, 40, Some ''000000000000000000000016'')]
   \<and> get_balance demo_buyer_id (snd (log_call (demo_call 120 90) demo_db)) = 20
   \<and> map (\<lambda>c. camp_status (snd c)) (campaign (snd (log_call (demo_call 120 90) demo_db)))
       = [Depleted]
   \<and> map (\<lambda>n. nt_user_id (snd n)) (notification (snd (log_call (demo_call 120 90) demo_db)))
       = [demo_buyer_id]"
proof -
  note inst = log_call_billable_debit [OF demo_price_floor demo_call_id demo_find_campaign, of 120 90]
  have led: "map (\<lambda>t. (wt_user_id (snd t), wt_type (snd t), wt_amount (snd t), wt_call_id (snd t))) docs
      = map (\<lambda>t. (wt_user_id t, wt_type t, wt_amount t, wt_call_id t)) (map snd docs)" for docs :: "WalletTransaction collection"
    by simp
  have st: "map (\<lambda>n. nt_user_id (snd n)) docs = map nt_user_id (map snd docs)" for docs :: "Notification collection"
    by simp
  show ?thesis
    unfolding led st
    using inst demo_price_floor demo_call_id demo_find_campaign demo_log_call_balance
    by (simp add: demo_call_def demo_db_def demo_campaign_def gen_oid_def str_of_oid_def
        hexdigit_def has_id_def)
qed

text \<open>
  C3. For every \<open>log_call\<close> on an existing campaign, one call record is stored and
  its billable flag, which is also the flag the handler returns, holds exactly when
  \<open>duration_seconds \<ge> max 60 threshold\<close>; with a threshold below 60 the call is
  billable exactly when it lasts at least 60 seconds.
\<close>

theorem log_call_billable_iff:
  assumes "oid (cl_campaign_id payload) = Inr i"
    and "find_one (has_id i) (campaign s) = Some camp"
  shows "length (callrecord (snd (log_call payload s))) = Suc (length (callrecord s))
     \<and> cr_billable (snd (last (callrecord (snd (log_call payload s)))))
         = (max 60 (cl_threshold payload) \<le> cl_duration_seconds payload)
     \<and> (\<forall>r. fst (log_call payload s) = Inr r \<longrightarrow>
           snd r = (max 60 (cl_threshold payload) \<le> cl_duration_seconds payload))
     \<and> (cl_threshold payload < 60 \<longrightarrow>
           cr_billable (snd (last (callrecord (snd (log_call payload s)))))
             = (60 \<le> cl_duration_seconds payload))"
proof -
  note cr = log_call_callrecord [OF assms]
  have b: "cr_billable (record_of_call payload (snd camp))
      = (max 60 (cl_threshold payload) \<le> cl_duration_seconds payload)"
    by (simp add: record_of_call_def)
  have r: "\<forall>r. fst (log_call payload s) = Inr r \<longrightarrow>
           snd r = (max 60 (cl_threshold payload) \<le> cl_duration_seconds payload)"
    unfolding log_call_found [OF assms] by auto
  have fl: "cl_threshold payload < 60 \<longrightarrow>
      (max 60 (cl_threshold payload) \<le> cl_duration_seconds payload) = (60 \<le> cl_duration_seconds payload)"
    by auto
  show ?thesis
    using r fl by (simp add: cr b del: max.bounded_iff)
qed

text \<open>
  45 seconds against a threshold of 30: not billable.
\<close>

theorem log_call_billable_iff_witness:
  "oid (cl_campaign_id (demo_call 45 30)) = Inr (gen_oid 20)
   \<and> find_one (has_id (gen_oid 20)) (campaign demo_db) = Some (gen_oid 20, demo_campaign)
   \<and> length (callrecord (snd (log_call (demo_call 45 30) demo_db))) = 1
   \<and> cr_billable (snd (last (callrecord (snd (log_call (demo_call 45 30) demo_db))))) = False
   \<and> fst (log_call (demo_call 45 30) demo_db) = Inr (''000000000000000000000016'', False)"
proof -
  have h1: "oid (cl_campaign_id (demo_call 45 30)) = Inr (gen_oid 20)"
    by (simp add: demo_call_def demo_oids)
  have r: "fst (log_call (demo_call 45 30) demo_db) = Inr (''000000000000000000000016'', False)"
    unfolding log_call_found [OF h1 demo_find_campaign]
    by (simp add: demo_call_def demo_db_def gen_oid_def str_of_oid_def hexdigit_def)
  show ?thesis
    using log_call_billable_iff [OF h1 demo_find_campaign] h1 demo_find_campaign r
    by (simp add: demo_call_def demo_db_def)
qed

text \<open>
  C4. For every \<open>log_call\<close> on an existing campaign, the stored call record's
  disposition is completed when the call is billable, otherwise short when
  \<open>duration_seconds > 0\<close>, otherwise failed.
\<close>

theorem log_call_disposition:
  assumes "oid (cl_campaign_id payload) = Inr i"
    and "find_one (has_id i) (campaign s) = Some camp"
  shows "length (callrecord (snd (log_call payload s))) = Suc (length (callrecord s))
     \<and> cr_disposition (snd (last (callrecord (snd (log_call payload s))))) =
         (if cr_billable (snd (last (callrecord (snd (log_call payload s))))) then Completed
          else if 0 < cl_duration_seconds payload then Short
          else Failed)"
proof -
  note cr = log_call_callrecord [OF assms]
  show ?thesis
    by (simp add: cr record_of_call_def del: max.bounded_iff)
qed

text \<open>
  0, 59 and 90 seconds against a threshold of 90: failed, short, completed.
\<close>

theorem log_call_disposition_witness:
  "oid (cl_campaign_id (demo_call 0 90)) = Inr (gen_oid 20)
   \<and> find_one (has_id (gen_oid 20)) (campaign demo_db) = Some (gen_oid 20, demo_campaign)
   \<and> length (callrecord (snd (log_call (demo_call 0 90) demo_db))) = 1
   \<and> cr_disposition (snd (last (callrecord (snd (log_call (demo_call 0 90) demo_db))))) = Failed
   \<and> cr_disposition (snd (last (callrecord (snd (log_call (demo_call 59 90) demo_db))))) = Short
   \<and> cr_disposition (snd (last (callrecord (snd (log_call (demo_call 90 90) demo_db))))) = Completed"
proof -
  note c = log_call_disposition [OF demo_call_id demo_find_campaign]
  have b: "cr_billable (snd (last (callrecord (snd (log_call (demo_call d t) demo_db)))))
      = (max 60 t \<le> d)" for d t
    unfolding log_call_callrecord [OF demo_call_id demo_find_campaign]
    by (simp add: record_of_call_def demo_call_def del: max.bounded_iff)
  have d: "cl_duration_seconds (demo_call d t) = d" for d t
    by (simp add: demo_call_def)
  show ?thesis
    using c [of 0 90] c [of 59 90] c [of 90 90] demo_call_id [of 0 90] demo_find_campaign
    by (simp add: b d demo_fields)
qed

text \<open>
  C5, as amended. \<open>log_call\<close> reads no status: on an existing campaign in any
  state, a billable call that leaves the buyer's balance below 50 sets the campaign's
  status to depleted, and every other call leaves the campaign collection as it was.
\<close>

theorem log_call_depletes_from_any_status:
  assumes "price_floor s"
    and "oid (cl_campaign_id payload) = Inr i"
    and "find_one (has_id i) (campaign s) = Some camp"
  shows
   "campaign (snd (log_call payload s)) =
      (if max 60 (cl_threshold payload) \<le> cl_duration_seconds payload
          \<and> get_balance (camp_buyer_id (snd camp)) (snd (log_call payload s)) < 50
       then update_one (has_id i) (\<lambda>d. d\<lparr>camp_status := Depleted\<rparr>) (campaign s)
       else campaign s)
    \<and> find_one (has_id i) (campaign (snd (log_call payload s))) =
      (if max 60 (cl_threshold payload) \<le> cl_duration_seconds payload
          \<and> get_balance (camp_buyer_id (snd camp)) (snd (log_call payload s)) < 50
       then Some (i, (snd camp)\<lparr>camp_status := Depleted\<rparr>)
       else Some camp)"
proof (cases "max 60 (cl_threshold payload) \<le> cl_duration_seconds payload")
  case False
  show ?thesis
    using False assms(3) unfolding log_call_short [OF assms(2,3) False]
    by (simp add: after_record_fields del: max.bounded_iff)
next
  case True
  have pos: "0 < camp_price_per_call (snd camp)"
    using price_floor_found [OF assms(1,3)] by simp
  show ?thesis
  proof (cases "get_balance (camp_buyer_id (snd camp)) (snd (log_call payload s)) < 50")
    case low: True
    have c: "campaign (snd (log_call payload s)) =
        update_one (has_id i) (\<lambda>d. d\<lparr>camp_status := Depleted\<rparr>) (campaign s)"
      unfolding log_call_low [OF assms(2,3) True pos low] by (simp add: after_depletion_fields)
    show ?thesis
      using True low find_one_update_one [OF assms(3)] unfolding c
      by (simp del: max.bounded_iff)
  next
    case high: False
    have c: "campaign (snd (log_call payload s)) = campaign s"
      unfolding log_call_high [OF assms(2,3) True pos high] by (simp add: after_debit_fields)
    show ?thesis
      using True high assms(3) unfolding c by (simp del: max.bounded_iff)
  qed
qed

text \<open>
  The sample campaign awaits acceptance and is depleted by a billable call.
\<close>

theorem log_call_depletes_from_any_status_witness:
  "price_floor demo_db
   \<and> oid (cl_campaign_id (demo_call 120 90)) = Inr (gen_oid 20)
   \<and> find_one (has_id (gen_oid 20)) (campaign demo_db) = Some (gen_oid 20, demo_campaign)
   \<and> camp_status demo_campaign = PendingAcceptance
   \<and> find_one (has_id (gen_oid 20)) (campaign (snd (log_call (demo_call 120 90) demo_db)))
       = Some (gen_oid 20, demo_campaign\<lparr>camp_status := Depleted\<rparr>)"
  using log_call_depletes_from_any_status [OF demo_price_floor demo_call_id demo_find_campaign, of 120 90, THEN conjunct2]
    demo_price_floor demo_call_id demo_find_campaign demo_log_call_balance
  by (simp add: demo_call_def demo_campaign_def)

text \<open>
  Against C5 as stated: the sample campaign is in state \<open>pending_acceptance\<close>, not
  \<open>active\<close>, and a billable call that takes the buyer from 60 to 20 changes its status
  to depleted.
\<close>

theorem log_call_depletes_pending_campaign:
  "map (\<lambda>c. camp_status (snd c)) (campaign demo_db) = [PendingAcceptance]
   \<and> fst (log_call (demo_call 120 90) demo_db) = Inr (''000000000000000000000016'', True)
   \<and> map (\<lambda>c. camp_status (snd c)) (campaign (snd (log_call (demo_call 120 90) demo_db)))
       = [Depleted]"
proof -
  have pos: "0 < camp_price_per_call (snd (gen_oid 20, demo_campaign))"
    by (simp add: demo_campaign_def)
  have b: "max 60 (cl_threshold (demo_call 120 90)) \<le> cl_duration_seconds (demo_call 120 90)"
    by (simp add: demo_call_def)
  have low: "get_balance (camp_buyer_id (snd (gen_oid 20, demo_campaign)))
      (snd (log_call (demo_call 120 90) demo_db)) < 50"
    using demo_log_call_balance by (simp add: demo_campaign_def)
  show ?thesis
    unfolding log_call_low [OF demo_call_id demo_find_campaign b pos low]
    by (simp add: after_depletion_fields demo_db_def demo_campaign_def has_id_def
        str_of_oid_def gen_oid_def hexdigit_def)
qed

subsection \<open>Routing\<close>

lemma after_upsert_fields:
  "user (after_upsert cid routing s) = user s"
  "wallettransaction (after_upsert cid routing s) = wallettransaction s"
  "campaign (after_upsert cid routing s) = campaign s"
  "selleracceptance (after_upsert cid routing s) = selleracceptance s"
  "callrecord (after_upsert cid routing s) = callrecord s"
  "notification (after_upsert cid routing s) = notification s"
  by (simp_all add: after_upsert_def create_document_routingassignment_def Let_def
      split: option.splits)

lemma assign_routing_found:
  assumes "oid campaign_id = Inr i"
    and "find_one (has_id i) (campaign s) = Some camp"
  shows "assign_routing campaign_id routing s =
     (Inr (True, if 50 \<le> get_balance (camp_buyer_id (snd camp)) s then Active else Depleted),
      notify_assigned (ra_seller_ids routing)
        (snd (create_document_notification
                \<lparr>nt_user_id = camp_buyer_id (snd camp),
                 nt_message = ''Your campaign routing is configured.'',
                 nt_read = False\<rparr>
                ((after_upsert campaign_id routing s)
                   \<lparr>campaign :=
                       update_one (has_id i)
                         (\<lambda>d. d\<lparr>camp_status :=
                                   (if 50 \<le> get_balance (camp_buyer_id (snd camp)) s
                                    then Active else Depleted)\<rparr>)
                         (campaign s)\<rparr>))))"
proof -
  have i: "fst camp = i"
    using assms(2) by (rule find_one_has_id)
  have bal: "get_balance u (after_upsert campaign_id routing s) = get_balance u s" for u
    by (rule get_balance_ledger) (simp add: after_upsert_fields)
  have up: "(case find_one (\<lambda>r. ra_campaign_id (snd r) = campaign_id) (routingassignment s) of
        Some r \<Rightarrow>
          s\<lparr>routingassignment :=
              update_one (has_id (fst r)) (\<lambda>d. routing) (routingassignment s)\<rparr>
      | None \<Rightarrow> snd (create_document_routingassignment routing s))
      = after_upsert campaign_id routing s"
    by (simp add: after_upsert_def)
  show ?thesis
    using assms i
    by (simp add: assign_routing_def Let_def up bal after_upsert_fields)
qed

text \<open>
  C6. For every \<open>assign_routing\<close> on an existing campaign: the campaign's status is
  set to active when the buyer's balance is at least 50 and to depleted otherwise, and in
  both cases one notification is appended for the buyer, followed by one for every seller
  id of the submitted list, in its order.
\<close>

theorem assign_routing_status_and_notices:
  assumes "oid campaign_id = Inr i"
    and "find_one (has_id i) (campaign s) = Some camp"
  shows
   "fst (assign_routing campaign_id routing s) =
      Inr (True, if 50 \<le> get_balance (camp_buyer_id (snd camp)) s then Active else Depleted)
    \<and> campaign (snd (assign_routing campaign_id routing s)) =
        update_one (has_id i)
          (\<lambda>d. d\<lparr>camp_status :=
                    (if 50 \<le> get_balance (camp_buyer_id (snd camp)) s then Active else Depleted)\<rparr>)
          (campaign s)
    \<and> find_one (has_id i) (campaign (snd (assign_routing campaign_id routing s))) =
        Some (i, (snd camp)\<lparr>camp_status :=
                    (if 50 \<le> get_balance (camp_buyer_id (snd camp)) s then Active else Depleted)\<rparr>)
    \<and> map snd (notification (snd (assign_routing campaign_id routing s))) =
        map snd (notification s) @
          \<lparr>nt_user_id = camp_buyer_id (snd camp),
            nt_message = ''Your campaign routing is configured.'', nt_read = False\<rparr>
          # map (\<lambda>sid. \<lparr>nt_user_id = sid,
                         nt_message = ''You have been assigned to a campaign.'',
                         nt_read = False\<rparr>) (ra_seller_ids routing)"
proof -
  have n: "map assigned_note sids =
      map (\<lambda>sid. \<lparr>nt_user_id = sid, nt_message = ''You have been assigned to a campaign.'',
                    nt_read = False\<rparr>) sids" for sids
    by (simp add: assigned_note_def)
  show ?thesis
    unfolding assign_routing_found [OF assms]
    using find_one_update_one [OF assms(2)]
    by (simp add: notify_assigned_fields create_document_notification_def Let_def
        after_upsert_fields n)
qed

text \<open>
  The sample buyer holds 60: the campaign becomes active; the buyer and the two listed
  sellers are notified.
\<close>

theorem assign_routing_status_and_notices_witness:
  "oid demo_campaign_id = Inr (gen_oid 20)
   \<and> find_one (has_id (gen_oid 20)) (campaign demo_db) = Some (gen_oid 20, demo_campaign)
   \<and> fst (assign_routing demo_campaign_id (demo_routing demo_campaign_id) demo_db)
       = Inr (True, Active)
   \<and> find_one (has_id (gen_oid 20))
        (campaign (snd (assign_routing demo_campaign_id (demo_routing demo_campaign_id) demo_db)))
       = Some (gen_oid 20, demo_campaign\<lparr>camp_status := Active\<rparr>)
   \<and> map (\<lambda>n. nt_user_id n)
        (map snd (notification
           (snd (assign_routing demo_campaign_id (demo_routing demo_campaign_id) demo_db))))
       = [demo_buyer_id, demo_seller_id, demo_other_id]"
proof -
  note inst = assign_routing_status_and_notices [OF demo_oids(4) demo_find_campaign, of "demo_routing demo_campaign_id"]
  show ?thesis
    using inst [THEN conjunct1] inst [THEN conjunct2, THEN conjunct2]
      demo_oids(4) demo_find_campaign demo_balance
    by (simp add: demo_routing_def demo_campaign_def demo_fields(1-5))
qed

subsection \<open>One record for each key\<close>

text \<open>
  Acceptances: \<open>accept_campaign\<close> adds a key only when the store does not hold it, so
  the keys of the acceptances stay distinct.
\<close>

lemma accept_campaign_keys:
  "acceptance_keys (snd (accept_campaign cid payload s)) =
     (if fst (accept_campaign cid payload s) = Inr True
         \<and> (cid, ap_seller_id payload) \<notin> set (acceptance_keys s)
      then acceptance_keys s @ [(cid, ap_seller_id payload)]
      else acceptance_keys s)"
proof -
  have none: "find_one (\<lambda>a. sa_campaign_id (snd a) = cid \<and> sa_seller_id (snd a) = ap_seller_id payload)
        (selleracceptance s) = None \<Longrightarrow> (cid, ap_seller_id payload) \<notin> set (acceptance_keys s)"
    using find_one_None_key [where key = "\<lambda>a. (sa_campaign_id a, sa_seller_id a)"
        and k = "(cid, ap_seller_id payload)" and docs = "selleracceptance s"]
    by (simp add: acceptance_keys_def)
  have some: "find_one (\<lambda>a. sa_campaign_id (snd a) = cid \<and> sa_seller_id (snd a) = ap_seller_id payload)
        (selleracceptance s) = Some a \<Longrightarrow> (cid, ap_seller_id payload) \<in> set (acceptance_keys s)" for a
    by (auto dest!: find_one_SomeD simp: acceptance_keys_def image_iff)
  have upd: "map (\<lambda>a. (sa_campaign_id (snd a), sa_seller_id (snd a)))
        (update_one flt (\<lambda>d. d\<lparr>sa_status := st\<rparr>) docs)
      = map (\<lambda>a. (sa_campaign_id (snd a), sa_seller_id (snd a))) docs" for flt st docs
    using update_one_keeps [where key = "\<lambda>a. (sa_campaign_id a, sa_seller_id a)"
        and patch = "\<lambda>d. d\<lparr>sa_status := st\<rparr>"]
    by simp
  show ?thesis
    using none some
    by (auto simp: accept_campaign_def Let_def acceptance_keys_def upd
        create_document_selleracceptance_def create_document_notification_def
        split: sum.splits option.splits)
qed

lemma accept_campaign_keeps_unique:
  "distinct (acceptance_keys s) \<Longrightarrow> distinct (acceptance_keys (snd (accept_campaign cid payload s)))"
  by (simp add: accept_campaign_keys)

lemma assign_routing_keeps_acceptances:
  "selleracceptance (snd (assign_routing cid routing s)) = selleracceptance s"
  by (auto simp: assign_routing_def Let_def create_document_notification_def
      create_document_routingassignment_def notify_assigned_fields
      split: sum.splits option.splits)

text \<open>
  Routing: the handler looks the assignment up by the campaign id of the path and stores
  the campaign id of the request body.
\<close>

lemma assign_routing_routing:
  assumes "oid cid = Inr i"
    and "find_one (has_id i) (campaign s) = Some camp"
  shows "routingassignment (snd (assign_routing cid routing s)) =
      routingassignment (after_upsert cid routing s)"
  unfolding assign_routing_found [OF assms]
  by (simp add: notify_assigned_fields create_document_notification_def Let_def)

lemma assign_routing_appends:
  assumes "oid cid = Inr i"
    and "find_one (has_id i) (campaign s) = Some camp"
    and "cid \<notin> set (routing_keys s)"
  shows "routing_keys (snd (assign_routing cid routing s)) =
      routing_keys s @ [ra_campaign_id routing]"
proof -
  have "find_one (\<lambda>r. ra_campaign_id (snd r) = cid) (routingassignment s) = None"
    using assms(3) by (auto simp: find_one_def find_None_iff routing_keys_def image_iff)
  then show ?thesis
    unfolding routing_keys_def assign_routing_routing [OF assms(1,2)]
    by (simp add: after_upsert_def create_document_routingassignment_def Let_def)
qed

lemma assign_routing_campaign_found:
  assumes "oid cid = Inr i"
    and "find_one (has_id i) (campaign s) = Some camp"
  shows "\<exists>camp'. find_one (has_id i) (campaign (snd (assign_routing cid routing s))) = Some camp'"
  unfolding assign_routing_found [OF assms]
  using find_one_update_one [OF assms(2)]
  by (simp add: notify_assigned_fields create_document_notification_def Let_def)

text \<open>
  C7. The code at the failing input: the same routing request twice, for the sample
  campaign in the path and another campaign id in the body. Both requests succeed, neither
  finds an assignment under the path's id, and the store ends with two routing assignments
  for the body's campaign id.
\<close>

theorem assign_routing_duplicates_routing:
  "routing_keys demo_db = []
   \<and> demo_other_id \<noteq> demo_campaign_id
   \<and> ra_campaign_id (demo_routing demo_other_id) = demo_other_id
   \<and> fst (assign_routing demo_campaign_id (demo_routing demo_other_id) demo_db) = Inr (True, Active)
   \<and> fst (assign_routing demo_campaign_id (demo_routing demo_other_id)
            (snd (assign_routing demo_campaign_id (demo_routing demo_other_id) demo_db)))
       = Inr (True, Active)
   \<and> routing_keys demo_twice = [demo_other_id, demo_other_id]
   \<and> \<not> distinct (routing_keys demo_twice)"
proof -
  let ?r = "demo_routing demo_other_id"
  let ?s1 = "snd (assign_routing demo_campaign_id ?r demo_db)"
  have ne: "demo_other_id \<noteq> demo_campaign_id"
    by (simp add: demo_other_id_def demo_campaign_id_def)
  have k0: "routing_keys demo_db = []"
    by (simp add: routing_keys_def demo_fields)
  have rc: "ra_campaign_id ?r = demo_other_id"
    by (simp add: demo_routing_def)
  have k1: "routing_keys ?s1 = [demo_other_id]"
    using assign_routing_appends [OF demo_oids(4) demo_find_campaign, of ?r] k0 rc by simp
  obtain camp' where f1: "find_one (has_id (gen_oid 20)) (campaign ?s1) = Some camp'"
    using assign_routing_campaign_found [OF demo_oids(4) demo_find_campaign] by blast
  have k2: "routing_keys demo_twice = [demo_other_id, demo_other_id]"
    unfolding demo_twice_def
    using assign_routing_appends [OF demo_oids(4) f1, of ?r] k1 rc ne by simp
  have b0: "get_balance (camp_buyer_id (snd (gen_oid 20, demo_campaign))) demo_db = 60"
    using demo_balance by (simp add: demo_campaign_def)
  have r1: "fst (assign_routing demo_campaign_id ?r demo_db) = Inr (True, Active)"
    unfolding assign_routing_found [OF demo_oids(4) demo_find_campaign] using b0 by simp
  have led: "wallettransaction ?s1 = wallettransaction demo_db"
    unfolding assign_routing_found [OF demo_oids(4) demo_find_campaign]
    by (simp add: notify_assigned_fields create_document_notification_def Let_def
        after_upsert_fields)
  have c1: "find_one (has_id (gen_oid 20)) (campaign ?s1) =
      Some (gen_oid 20, demo_campaign\<lparr>camp_status := Active\<rparr>)"
    unfolding assign_routing_found [OF demo_oids(4) demo_find_campaign]
    using find_one_update_one [OF demo_find_campaign] b0
    by (simp add: notify_assigned_fields create_document_notification_def Let_def)
  have b1: "get_balance (camp_buyer_id (snd (gen_oid 20, demo_campaign\<lparr>camp_status := Active\<rparr>))) ?s1 = 60"
    using get_balance_ledger [OF led, of demo_buyer_id] demo_balance
    by (simp add: demo_campaign_def)
  have r2: "fst (assign_routing demo_campaign_id ?r ?s1) = Inr (True, Active)"
    unfolding assign_routing_found [OF demo_oids(4) c1] using b1 by simp
  show ?thesis
    using ne k0 rc r1 r2 k2 by simp
qed

subsection \<open>Top-up\<close>





lemma wallet_topup_found:
  assumes "50 \<le> tu_amount payload"
    and "oid (tu_user_id payload) = Inr i"
    and "find_one (has_id i) (user s) = Some u"
  shows "wallet_topup payload s =
     (Inr (str_of_oid (gen_oid (next_id s)),
           get_balance (tu_user_id payload)
             (snd (create_document_wallettransaction (topup_credit payload) s))),
      snd (create_document_wallettransaction (topup_credit payload) s))"
  using assms
  by (simp add: wallet_topup_def WalletTransaction_init_def topup_credit_def
      create_document_wallettransaction_def Let_def)







text \<open>
  C10. \<open>wallet_topup\<close> reads no role: for an existing user of any role \<open>r\<close>, a
  top-up of at least 50 succeeds and appends a credit to that user's ledger. The only
  condition on the user is that a document with the id exists.
\<close>

theorem wallet_topup_any_role:
  assumes "50 \<le> tu_amount payload"
    and "oid (tu_user_id payload) = Inr i"
    and "find_one (has_id i) (user s) = Some u"
    and "user_role (snd u) = r"
  shows "fst (wallet_topup payload s) =
           Inr (str_of_oid (gen_oid (next_id s)),
                get_balance (tu_user_id payload) (snd (wallet_topup payload s)))
       \<and> wallettransaction (snd (wallet_topup payload s)) =
           wallettransaction s @
             [(gen_oid (next_id s),
               \<lparr>wt_user_id = tu_user_id payload, wt_type = Credit, wt_amount = tu_amount payload,
                wt_memo = Some ''Account funding'', wt_campaign_id = None, wt_call_id = None\<rparr>)]
       \<and> sum_credits (tu_user_id payload) (snd (wallet_topup payload s)) =
           sum_credits (tu_user_id payload) s + tu_amount payload"
  unfolding wallet_topup_found [OF assms(1-3)]
  by (simp add: create_document_wallettransaction_def Let_def topup_credit_def sum_credits_def)

text \<open>
  The seller and the admin of the sample store are credited.
\<close>

theorem wallet_topup_any_role_witness:
  "50 \<le> tu_amount (demo_topup demo_seller_id 75)
   \<and> oid (tu_user_id (demo_topup demo_seller_id 75)) = Inr (gen_oid 18)
   \<and> find_one (has_id (gen_oid 18)) (user demo_db) = Some (gen_oid 18, demo_user ''sol'' Seller)
   \<and> user_role (snd (gen_oid 18, demo_user ''sol'' Seller)) = Seller
   \<and> sum_credits demo_seller_id (snd (wallet_topup (demo_topup demo_seller_id 75) demo_db)) = 75
   \<and> 50 \<le> tu_amount (demo_topup demo_admin_id 75)
   \<and> oid (tu_user_id (demo_topup demo_admin_id 75)) = Inr (gen_oid 19)
   \<and> find_one (has_id (gen_oid 19)) (user demo_db) = Some (gen_oid 19, demo_user ''ada'' Admin)
   \<and> user_role (snd (gen_oid 19, demo_user ''ada'' Admin)) = Admin
   \<and> sum_credits demo_admin_id (snd (wallet_topup (demo_topup demo_admin_id 75) demo_db)) = 75"
proof -
  have a: "50 \<le> tu_amount (demo_topup uid 75)" for uid
    by (simp add: demo_topup_def)
  have o2: "oid (tu_user_id (demo_topup demo_seller_id 75)) = Inr (gen_oid 18)"
    by (simp add: demo_topup_def demo_oids)
  have o3: "oid (tu_user_id (demo_topup demo_admin_id 75)) = Inr (gen_oid 19)"
    by (simp add: demo_topup_def demo_oids)
  have r2: "user_role (snd (gen_oid 18, demo_user ''sol'' Seller)) = Seller"
    by (simp add: demo_user_def)
  have r3: "user_role (snd (gen_oid 19, demo_user ''ada'' Admin)) = Admin"
    by (simp add: demo_user_def)
  have z: "sum_credits demo_seller_id demo_db = 0" "sum_credits demo_admin_id demo_db = 0"
    by (simp_all add: sum_credits_def demo_db_def demo_seller_id_def demo_admin_id_def
        demo_buyer_id_def)
  note s2 = wallet_topup_any_role [OF a o2 demo_find_user(2) r2, THEN conjunct2, THEN conjunct2]
  note s3 = wallet_topup_any_role [OF a o3 demo_find_user(3) r3, THEN conjunct2, THEN conjunct2]
  show ?thesis
    using s2 s3 a o2 o3 r2 r3 demo_find_user(2,3) z
    by (simp add: demo_topup_def)
qed

subsection \<open>A failed guard writes nothing\<close>

lemma wallet_topup_guard:
  "fst (wallet_topup payload s) = Inl e \<Longrightarrow> snd (wallet_topup payload s) = s"
  by (auto simp: wallet_topup_def WalletTransaction_init_def create_document_wallettransaction_def
      Let_def split: if_splits sum.splits option.splits)

lemma create_campaign_guard:
  "fst (create_campaign c0 s) = Inl e \<Longrightarrow> snd (create_campaign c0 s) = s"
  by (auto simp: create_campaign_def create_document_campaign_def Let_def
      split: if_splits sum.splits option.splits)

lemma accept_campaign_guard:
  "fst (accept_campaign cid payload s) = Inl e \<Longrightarrow> snd (accept_campaign cid payload s) = s"
  by (auto simp: accept_campaign_def Let_def split: if_splits sum.splits option.splits)

lemma set_transfer_number_guard:
  "fst (set_transfer_number cid payload s) = Inl e \<Longrightarrow>
   snd (set_transfer_number cid payload s) = s"
  by (auto simp: set_transfer_number_def Let_def split: if_splits sum.splits option.splits)

lemma assign_routing_guard:
  "fst (assign_routing cid r s) = Inl e \<Longrightarrow> snd (assign_routing cid r s) = s"
  by (auto simp: assign_routing_def Let_def split: if_splits sum.splits option.splits)

lemma log_call_guard:
  "fst (log_call payload s) = Inl (HTTPException c m) \<Longrightarrow> snd (log_call payload s) = s"
  by (auto simp: log_call_def Let_def WalletTransaction_init_def create_document_callrecord_def
      split: if_splits sum.splits option.splits)

text \<open>
  The one raise of \<open>log_call\<close> that follows a write is the schema check of the debit
  amount. It needs a price that is not positive, which the price floor rules out.
\<close>

lemma log_call_no_schema_error:
  assumes "price_floor s"
  shows "fst (log_call payload s) \<noteq> Inl PydanticValidationError"
proof (cases "oid (cl_campaign_id payload)")
  case (Inl e)
  then show ?thesis
    by (auto simp: log_call_def oid_def split: option.splits)
next
  case (Inr i)
  show ?thesis
  proof (cases "find_one (has_id i) (campaign s)")
    case None
    with Inr show ?thesis by (simp add: log_call_def)
  next
    case (Some camp)
    have "0 < camp_price_per_call (snd camp)"
      using price_floor_found [OF assms Some] by simp
    then show ?thesis
      unfolding log_call_found [OF Inr Some] by simp
  qed
qed

lemma log_call_guard_floor:
  assumes "price_floor s" and "fst (log_call payload s) = Inl e"
  shows "snd (log_call payload s) = s"
proof (cases e)
  case (HTTPException c m)
  with assms(2) show ?thesis by (simp add: log_call_guard)
next
  case PydanticValidationError
  with assms(2) log_call_no_schema_error [OF assms(1), of payload] show ?thesis by simp
qed

lemma demo_errors:
  "fst (wallet_topup (demo_topup demo_buyer_id 10) demo_db)
     = Inl (HTTPException 400 ''Minimum top-up is $50'')"
  "fst (create_campaign (demo_campaign\<lparr>camp_buyer_id := demo_seller_id\<rparr>) demo_db)
     = Inl (HTTPException 400 ''Invalid buyer'')"
  "fst (accept_campaign demo_campaign_id \<lparr>ap_seller_id = demo_buyer_id, ap_status = Accepted\<rparr> demo_db)
     = Inl (HTTPException 400 ''Invalid seller'')"
  "fst (set_transfer_number ''nope'' \<lparr>tn_transfer_number = ''+15550101''\<rparr> demo_db)
     = Inl (HTTPException 400 ''Invalid id'')"
  "fst (assign_routing demo_other_id (demo_routing demo_other_id) demo_db)
     = Inl (HTTPException 404 ''Campaign not found'')"
  "fst (log_call ((demo_call 120 90)\<lparr>cl_campaign_id := demo_other_id\<rparr>) demo_db)
     = Inl (HTTPException 404 ''Campaign not found'')"
proof -
  show "fst (wallet_topup (demo_topup demo_buyer_id 10) demo_db)
     = Inl (HTTPException 400 ''Minimum top-up is $50'')"
    by (simp add: wallet_topup_def demo_topup_def)
  show "fst (create_campaign (demo_campaign\<lparr>camp_buyer_id := demo_seller_id\<rparr>) demo_db)
     = Inl (HTTPException 400 ''Invalid buyer'')"
    by (simp add: create_campaign_def demo_oids demo_find_user demo_user_def Let_def)
  show "fst (accept_campaign demo_campaign_id \<lparr>ap_seller_id = demo_buyer_id, ap_status = Accepted\<rparr> demo_db)
     = Inl (HTTPException 400 ''Invalid seller'')"
    by (simp add: accept_campaign_def demo_oids demo_find_user demo_find_campaign demo_user_def Let_def)
  show "fst (set_transfer_number ''nope'' \<lparr>tn_transfer_number = ''+15550101''\<rparr> demo_db)
     = Inl (HTTPException 400 ''Invalid id'')"
    by (simp add: set_transfer_number_def oid_def ObjectId_def)
  show "fst (assign_routing demo_other_id (demo_routing demo_other_id) demo_db)
     = Inl (HTTPException 404 ''Campaign not found'')"
    by (simp add: assign_routing_def demo_other_oid demo_no_campaign)
  show "fst (log_call ((demo_call 120 90)\<lparr>cl_campaign_id := demo_other_id\<rparr>) demo_db)
     = Inl (HTTPException 404 ''Campaign not found'')"
    by (simp add: log_call_def demo_call_def demo_other_oid demo_no_campaign)
qed

text \<open>
  C8. For each of the six operations (top-up, campaign creation, accept, transfer number,
  routing assignment, call logging): when it ends in an error, the database is exactly
  what it was before. For five of them this holds of every error; for \<open>log_call\<close> it
  holds of every \<open>HTTPException\<close>, the error of a failed guard, and of every error at
  all in a store that keeps the price floor.
\<close>

theorem guard_failure_writes_nothing:
  "(\<forall>e. fst (wallet_topup topup s) = Inl e \<longrightarrow> snd (wallet_topup topup s) = s)
   \<and> (\<forall>e. fst (create_campaign new_campaign s) = Inl e \<longrightarrow>
         snd (create_campaign new_campaign s) = s)
   \<and> (\<forall>e. fst (accept_campaign campaign_id acceptance s) = Inl e \<longrightarrow>
         snd (accept_campaign campaign_id acceptance s) = s)
   \<and> (\<forall>e. fst (set_transfer_number campaign_id transfer s) = Inl e \<longrightarrow>
         snd (set_transfer_number campaign_id transfer s) = s)
   \<and> (\<forall>e. fst (assign_routing campaign_id routing s) = Inl e \<longrightarrow>
         snd (assign_routing campaign_id routing s) = s)
   \<and> (\<forall>c m. fst (log_call call s) = Inl (HTTPException c m) \<longrightarrow>
         snd (log_call call s) = s)
   \<and> (price_floor s \<longrightarrow>
         (\<forall>e. fst (log_call call s) = Inl e \<longrightarrow> snd (log_call call s) = s))"
proof (intro conjI allI impI)
  fix e c m
  show "fst (wallet_topup topup s) = Inl e \<Longrightarrow> snd (wallet_topup topup s) = s"
    by (rule wallet_topup_guard)
  show "fst (create_campaign new_campaign s) = Inl e \<Longrightarrow>
      snd (create_campaign new_campaign s) = s"
    by (rule create_campaign_guard)
  show "fst (accept_campaign campaign_id acceptance s) = Inl e \<Longrightarrow>
      snd (accept_campaign campaign_id acceptance s) = s"
    by (rule accept_campaign_guard)
  show "fst (set_transfer_number campaign_id transfer s) = Inl e \<Longrightarrow>
      snd (set_transfer_number campaign_id transfer s) = s"
    by (rule set_transfer_number_guard)
  show "fst (assign_routing campaign_id routing s) = Inl e \<Longrightarrow>
      snd (assign_routing campaign_id routing s) = s"
    by (rule assign_routing_guard)
  show "fst (log_call call s) = Inl (HTTPException c m) \<Longrightarrow> snd (log_call call s) = s"
    by (rule log_call_guard)
  show "price_floor s \<Longrightarrow> fst (log_call call s) = Inl e \<Longrightarrow> snd (log_call call s) = s"
    by (rule log_call_guard_floor)
qed

text \<open>
  One failing request for each operation on the sample store.
\<close>

theorem guard_failure_writes_nothing_witness:
  "fst (wallet_topup (demo_topup demo_buyer_id 10) demo_db)
     = Inl (HTTPException 400 ''Minimum top-up is $50'')
   \<and> snd (wallet_topup (demo_topup demo_buyer_id 10) demo_db) = demo_db
   \<and> fst (create_campaign (demo_campaign\<lparr>camp_buyer_id := demo_seller_id\<rparr>) demo_db)
     = Inl (HTTPException 400 ''Invalid buyer'')
   \<and> snd (create_campaign (demo_campaign\<lparr>camp_buyer_id := demo_seller_id\<rparr>) demo_db) = demo_db
   \<and> fst (accept_campaign demo_campaign_id \<lparr>ap_seller_id = demo_buyer_id, ap_status = Accepted\<rparr> demo_db)
     = Inl (HTTPException 400 ''Invalid seller'')
   \<and> snd (accept_campaign demo_campaign_id \<lparr>ap_seller_id = demo_buyer_id, ap_status = Accepted\<rparr> demo_db)
     = demo_db
   \<and> fst (set_transfer_number ''nope'' \<lparr>tn_transfer_number = ''+15550101''\<rparr> demo_db)
     = Inl (HTTPException 400 ''Invalid id'')
   \<and> snd (set_transfer_number ''nope'' \<lparr>tn_transfer_number = ''+15550101''\<rparr> demo_db) = demo_db
   \<and> fst (assign_routing demo_other_id (demo_routing demo_other_id) demo_db)
     = Inl (HTTPException 404 ''Campaign not found'')
   \<and> snd (assign_routing demo_other_id (demo_routing demo_other_id) demo_db) = demo_db
   \<and> fst (log_call ((demo_call 120 90)\<lparr>cl_campaign_id := demo_other_id\<rparr>) demo_db)
     = Inl (HTTPException 404 ''Campaign not found'')
   \<and> snd (log_call ((demo_call 120 90)\<lparr>cl_campaign_id := demo_other_id\<rparr>) demo_db) = demo_db
   \<and> price_floor demo_db
   \<and> snd (log_call ((demo_call 120 90)\<lparr>cl_campaign_id := demo_other_id\<rparr>) demo_db) = demo_db"
proof -
  note c1 = guard_failure_writes_nothing [where s = demo_db and topup = "demo_topup demo_buyer_id 10",
      THEN conjunct1, rule_format, OF demo_errors(1)]
  note c2 = guard_failure_writes_nothing [where s = demo_db
      and new_campaign = "demo_campaign\<lparr>camp_buyer_id := demo_seller_id\<rparr>",
      THEN conjunct2, THEN conjunct1, rule_format, OF demo_errors(2)]
  note c3 = guard_failure_writes_nothing [where s = demo_db and campaign_id = demo_campaign_id
      and acceptance = "\<lparr>ap_seller_id = demo_buyer_id, ap_status = Accepted\<rparr>",
      THEN conjunct2, THEN conjunct2, THEN conjunct1, rule_format, OF demo_errors(3)]
  note c4 = guard_failure_writes_nothing [where s = demo_db and campaign_id = "''nope''"
      and transfer = "\<lparr>tn_transfer_number = ''+15550101''\<rparr>",
      THEN conjunct2, THEN conjunct2, THEN conjunct2, THEN conjunct1, rule_format,
      OF demo_errors(4)]
  note c5 = guard_failure_writes_nothing [where s = demo_db and campaign_id = demo_other_id
      and routing = "demo_routing demo_other_id",
      THEN conjunct2, THEN conjunct2, THEN conjunct2, THEN conjunct2, THEN conjunct1,
      rule_format, OF demo_errors(5)]
  note c6 = guard_failure_writes_nothing [where s = demo_db
      and call = "(demo_call 120 90)\<lparr>cl_campaign_id := demo_other_id\<rparr>",
      THEN conjunct2, THEN conjunct2, THEN conjunct2, THEN conjunct2, THEN conjunct2,
      THEN conjunct1, rule_format, OF demo_errors(6)]
  note c7 = guard_failure_writes_nothing [where s = demo_db
      and call = "(demo_call 120 90)\<lparr>cl_campaign_id := demo_other_id\<rparr>",
      THEN conjunct2, THEN conjunct2, THEN conjunct2, THEN conjunct2, THEN conjunct2,
      THEN conjunct2, rule_format, OF demo_price_floor demo_errors(6)]
  show ?thesis
    by (intro conjI demo_errors demo_price_floor c1 c2 c3 c4 c5 c6 c7)
qed

end
